theory Spec2Isabelle
  imports Main "HOL-Library.AList"
begin

section \<open>Strings and paths\<close>

text \<open>
  Strings are lists of characters; a character stands for one code unit of a JavaScript
  string (the Latin-1 range). \<open>path.basename\<close> (POSIX): trailing slashes are dropped,
  then the part after the last remaining slash is returned.
\<close>

definition basename :: "string \<Rightarrow> string" where
  "basename p = rev (takeWhile (\<lambda>c. c \<noteq> CHR ''/'') (dropWhile (\<lambda>c. c = CHR ''/'') (rev p)))"

text \<open>Truthiness of a possibly absent string, and \<open>x || d\<close> on possibly absent values.\<close>

fun truthy :: "string option \<Rightarrow> bool" where
  "truthy None = False"
| "truthy (Some t) = (t \<noteq> [])"

fun or_else :: "'a option \<Rightarrow> 'a \<Rightarrow> 'a" where
  "or_else None d = d"
| "or_else (Some v) d = v"

fun str_or :: "string option \<Rightarrow> string \<Rightarrow> string" where
  "str_or None d = d"
| "str_or (Some t) d = (if t = [] then d else t)"

text \<open>
  \<open>toLowerCase\<close> on the Latin-1 range: \<open>A\<close>--\<open>Z\<close> and the accented capitals
  (0xC0--0xDE without the multiplication sign 0xD7) move up by 32.
\<close>

definition lower_char :: "char \<Rightarrow> char" where
  "lower_char c =
     (let n = (of_char c :: nat) in
      if (65 \<le> n \<and> n \<le> 90) \<or> (192 \<le> n \<and> n \<le> 222 \<and> n \<noteq> 215)
      then char_of (n + 32) else c)"

definition toLowerCase :: "string \<Rightarrow> string" where
  "toLowerCase t = map lower_char t"

text \<open>\<open>startsWith\<close> and \<open>includes\<close> of a string: a scan over the start positions.\<close>

fun startsWith :: "string \<Rightarrow> string \<Rightarrow> bool" where
  "startsWith t [] = True"
| "startsWith [] (q # qs) = False"
| "startsWith (c # cs) (q # qs) = (c = q \<and> startsWith cs qs)"

fun includes_str :: "string \<Rightarrow> string \<Rightarrow> bool" where
  "includes_str [] q = (q = [])"
| "includes_str (c # cs) q = (startsWith (c # cs) q \<or> includes_str cs q)"

text \<open>
  A file or directory name that the file system takes: no NUL character, and at most 255
  bytes in UTF-8 (a character above 127 takes two). With another name \<open>fs.mkdir\<close>,
  \<open>fs.writeFile\<close>, \<open>fs.readFile\<close>, \<open>fs.access\<close> and \<open>fs.unlink\<close> are rejected.
\<close>

definition utf8_length :: "string \<Rightarrow> nat" where
  "utf8_length n = length n + length (filter digit7 n)"

definition name_ok :: "string \<Rightarrow> bool" where
  "name_ok n = (list_all (\<lambda>c. c \<noteq> CHR 0x00) n \<and> utf8_length n \<le> 255)"

section \<open>Objects\<close>

text \<open>
  A plain object, as \<open>JSON.parse\<close> and an object literal make it, is the list of its own
  properties in the order in which \<open>Object.entries\<close> and \<open>JSON.stringify\<close> go through
  them; its prototype is \<open>Object.prototype\<close>. Reading \<open>obj[key]\<close> finds an own property,
  or else one of the properties of the prototype (functions, and the prototype itself for
  \<open>__proto__\<close>: all of them truthy and without enumerable properties of their own), or
  else \<open>undefined\<close>.
\<close>

definition object_prototype_names :: "string list" where
  "object_prototype_names =
     [''constructor'', ''__defineGetter__'', ''__defineSetter__'', ''hasOwnProperty'',
      ''__lookupGetter__'', ''__lookupSetter__'', ''isPrototypeOf'', ''propertyIsEnumerable'',
      ''toString'', ''valueOf'', ''__proto__'', ''toLocaleString'']"

datatype 'a property = Own 'a | Inherited | Undefined

definition js_get :: "(string \<times> 'a) list \<Rightarrow> string \<Rightarrow> 'a property" where
  "js_get obj key =
     (case map_of obj key of
        Some v \<Rightarrow> Own v
      | None \<Rightarrow> (if key \<in> set object_prototype_names then Inherited else Undefined))"

text \<open>
  An array index is the canonical decimal form of a number below \<open>2^32 - 1\<close>. Own
  properties named by array indices come first, in ascending order; the others follow in
  the order of their creation.
\<close>

definition is_digit :: "char \<Rightarrow> bool" where
  "is_digit c = (c \<in> set ''0123456789'')"

definition digits_value :: "string \<Rightarrow> int" where
  "digits_value k = foldl (\<lambda>a c. 10 * a + (of_char c - 48)) 0 k"

definition array_index :: "string \<Rightarrow> int option" where
  "array_index k =
     (if k \<noteq> [] \<and> list_all is_digit k \<and> (k = ''0'' \<or> take 1 k \<noteq> ''0'')
         \<and> digits_value k < 4294967295
      then Some (digits_value k) else None)"

fun insert_index :: "int \<Rightarrow> string \<Rightarrow> 'a \<Rightarrow> (string \<times> 'a) list \<Rightarrow> (string \<times> 'a) list" where
  "insert_index n key v [] = [(key, v)]"
| "insert_index n key v (p # rest) =
     (case array_index (fst p) of
        None \<Rightarrow> (key, v) # p # rest
      | Some m \<Rightarrow> (if m < n then p # insert_index n key v rest else (key, v) # p # rest))"

text \<open>
  The assignment \<open>obj[key] = v\<close> of an object \<open>v\<close>: an own property is overwritten in
  its place; otherwise \<open>__proto__\<close> goes to the setter of the prototype, which changes the
  prototype and makes no own property, so that \<open>JSON.stringify\<close> writes nothing for it;
  any other key becomes a new own property. \<open>delete obj[key]\<close> removes an own property.
\<close>

definition js_set :: "string \<Rightarrow> 'a \<Rightarrow> (string \<times> 'a) list \<Rightarrow> (string \<times> 'a) list" where
  "js_set key v obj =
     (if map_of obj key \<noteq> None then AList.update key v obj
      else if key = ''__proto__'' then obj
      else (case array_index key of
              None \<Rightarrow> obj @ [(key, v)]
            | Some n \<Rightarrow> insert_index n key v obj))"

definition js_delete :: "string \<Rightarrow> (string \<times> 'a) list \<Rightarrow> (string \<times> 'a) list" where
  "js_delete key obj = AList.delete key obj"

section \<open>Documents kept on disk\<close>

text \<open>
  Note metadata as stored in a user's \<open>database.json\<close>. Every property may be absent
  (\<open>undefined\<close>, which \<open>JSON.stringify\<close> drops): \<open>None\<close>. A document that parses but
  has another shape than the one the server writes is outside the model.
\<close>

record meta =
  title :: "string option"
  tags :: "string list option"
  groups :: "string list option"
  isPasswordProtected :: "bool option"
  password :: "string option"
  shareId :: "string option"
  createdAt :: "string option"
  updatedAt :: "string option"

text \<open>The object handled by the routes: the metadata spread together with \<open>markdown\<close>.\<close>

record note_data = meta +
  markdown :: "string option"

text \<open>
  The parsed \<open>database.json\<close>: its \<open>notes\<close> object, as the list of its own properties
  in the order of the object.
\<close>

record database =
  db_notes :: "(string \<times> meta) list"

text \<open>
  A JSON file: absent, present but rejected by \<open>JSON.parse\<close>, or holding a document.
\<close>

datatype 'a jfile = Missing | Garbage | Doc 'a

record share_entry =
  share_userId :: string
  share_noteId :: string
  share_createdAt :: string

record account =
  acct_username :: string
  acct_password :: string
  acct_isAdmin :: bool

section \<open>The directory tree\<close>

text \<open>
  The tree is nested as on disk, so that a file exists only inside an existing directory.
  Under \<open>DATA_DIR\<close> there is one directory per user name; it holds \<open>database.json\<close>,
  the \<open>notes\<close> directory (markdown files by stem, media directories by note) and the
  per-note directories of the older layouts. The directory of a user is reached by the
  base name of the user identifier, the files of a note by the base name of the note
  identifier; the directory of an older layout under the name \<open>n\<close> stands for the files
  \<open>metadata.json\<close>, \<open>content.md\<close> and \<open>note.json\<close> that are reached through \<open>n\<close> from
  the user's directory.
  \<open>users.json\<close> lies beside the server; \<open>users-index.json\<close> lies in the system
  directory; the share registry is the directory \<open>shared\<close>.
\<close>

record legacy_dir =
  metadata_json :: "meta jfile"
  content_md :: "string option"
  note_json :: "note_data jfile"

record notes_dir =
  md_files :: "string \<Rightarrow> string option"
  media_dirs :: "string \<Rightarrow> string list option"

record user_dir =
  database_json :: "database jfile"
  notes_sub :: "notes_dir option"
  legacy_sub :: "string \<Rightarrow> legacy_dir"

record fs =
  users_json :: "(string \<times> account) list jfile"
  users_index_json :: "string list jfile"
  data_dir :: "string \<Rightarrow> user_dir option"
  shared_dir :: "(string \<Rightarrow> share_entry jfile) option"

datatype error = ENOENT | EINVAL | SyntaxError | TypeError

text \<open>
  What an asynchronous function leaves behind: a value, or a thrown error; in both cases
  the file system as it is at that point.
\<close>

datatype 'a outcome = Returned 'a fs | Threw error fs

fun state_of :: "'a outcome \<Rightarrow> fs" where
  "state_of (Returned _ s) = s"
| "state_of (Threw _ s) = s"

text \<open>A route's answer: the JSON payload of a success, or a status with its message.\<close>

datatype 'a response = Success 'a | Failure nat string

fun error_message :: "error \<Rightarrow> string" where
  "error_message ENOENT = ''ENOENT: no such file or directory''"
| "error_message EINVAL = ''The argument 'path' must be a valid file name''"
| "error_message SyntaxError = ''Unexpected token in JSON''"
| "error_message TypeError = ''Cannot read properties of undefined''"

definition empty_legacy_dir :: legacy_dir where
  "empty_legacy_dir = \<lparr>metadata_json = Missing, content_md = None, note_json = Missing\<rparr>"

definition empty_notes_dir :: notes_dir where
  "empty_notes_dir = \<lparr>md_files = (\<lambda>_. None), media_dirs = (\<lambda>_. None)\<rparr>"

definition empty_database :: database where
  "empty_database = \<lparr>db_notes = []\<rparr>"

subsection \<open>Path helpers\<close>

text \<open>A path is the key of its area: the user's directory name and the note's stem.\<close>

definition getUserDir :: "string \<Rightarrow> string" where
  "getUserDir userId = basename userId"

definition getNoteFilePath :: "string \<Rightarrow> string \<Rightarrow> string \<times> string" where
  "getNoteFilePath userId noteId = (getUserDir userId, basename noteId)"

definition getNoteMediaDir :: "string \<Rightarrow> string \<Rightarrow> string \<times> string" where
  "getNoteMediaDir userId noteId = (getUserDir userId, basename noteId)"

definition getLegacyNoteDir :: "string \<Rightarrow> string \<Rightarrow> string \<times> string" where
  "getLegacyNoteDir userId noteId = (basename userId, basename noteId)"

subsection \<open>File operations\<close>

text \<open>
  Every operation reaches a user's directory by its name; under a name that the file
  system does not take there is nothing, and nothing can be made.
\<close>

definition user_dir_at :: "fs \<Rightarrow> string \<Rightarrow> user_dir option" where
  "user_dir_at s d = (if name_ok d then data_dir s d else None)"

definition read_database_json :: "fs \<Rightarrow> string \<Rightarrow> database jfile" where
  "read_database_json s d = (case user_dir_at s d of None \<Rightarrow> Missing | Some u \<Rightarrow> database_json u)"

definition write_database_json :: "fs \<Rightarrow> string \<Rightarrow> database \<Rightarrow> fs option" where
  "write_database_json s d db =
     (case user_dir_at s d of
        None \<Rightarrow> None
      | Some u \<Rightarrow> Some (s\<lparr>data_dir := (data_dir s)(d \<mapsto> u\<lparr>database_json := Doc db\<rparr>)\<rparr>))"

text \<open>The markdown file of the stem \<open>snd p\<close> has the name \<open>snd p @ ''.md''\<close>.\<close>

definition read_md :: "fs \<Rightarrow> string \<times> string \<Rightarrow> string option" where
  "read_md s p =
     (case user_dir_at s (fst p) of
        None \<Rightarrow> None
      | Some u \<Rightarrow>
          (case notes_sub u of
             None \<Rightarrow> None
           | Some n \<Rightarrow> (if name_ok (snd p @ ''.md'') then md_files n (snd p) else None)))"

definition write_md :: "fs \<Rightarrow> string \<times> string \<Rightarrow> string \<Rightarrow> fs option" where
  "write_md s p t =
     (case user_dir_at s (fst p) of
        None \<Rightarrow> None
      | Some u \<Rightarrow>
          (case notes_sub u of
             None \<Rightarrow> None
           | Some n \<Rightarrow>
               (if name_ok (snd p @ ''.md'')
                then Some (s\<lparr>data_dir := (data_dir s)(fst p \<mapsto>
                       u\<lparr>notes_sub := Some (n\<lparr>md_files := (md_files n)(snd p \<mapsto> t)\<rparr>)\<rparr>)\<rparr>)
                else None)))"

text \<open>\<open>fs.unlink\<close> of a markdown file with the error swallowed by the caller.\<close>

definition unlink_md :: "fs \<Rightarrow> string \<times> string \<Rightarrow> fs" where
  "unlink_md s p =
     (case user_dir_at s (fst p) of
        None \<Rightarrow> s
      | Some u \<Rightarrow>
          (case notes_sub u of
             None \<Rightarrow> s
           | Some n \<Rightarrow>
               (if name_ok (snd p @ ''.md'')
                then s\<lparr>data_dir := (data_dir s)(fst p \<mapsto>
                       u\<lparr>notes_sub := Some (n\<lparr>md_files := (md_files n)(snd p := None)\<rparr>)\<rparr>)\<rparr>
                else s)))"

text \<open>
  \<open>fs.rm\<close> with \<open>recursive\<close> and \<open>force\<close> of \<open>notes/media/<name>\<close>, with the error
  swallowed by the caller: a missing directory is no error. \<open>path.join\<close> resolves the
  name \<open>..\<close> to the \<open>notes\<close> directory, and the names \<open>.\<close> and the empty one to the
  \<open>media\<close> directory itself; these are then removed with all they hold.
\<close>

definition rm_media :: "fs \<Rightarrow> string \<times> string \<Rightarrow> fs" where
  "rm_media s p =
     (case user_dir_at s (fst p) of
        None \<Rightarrow> s
      | Some u \<Rightarrow>
          (case notes_sub u of
             None \<Rightarrow> s
           | Some n \<Rightarrow>
               (if snd p = ''..''
                then s\<lparr>data_dir := (data_dir s)(fst p \<mapsto> u\<lparr>notes_sub := None\<rparr>)\<rparr>
                else if snd p = ''.'' \<or> snd p = []
                then s\<lparr>data_dir := (data_dir s)(fst p \<mapsto>
                       u\<lparr>notes_sub := Some (n\<lparr>media_dirs := (\<lambda>_. None)\<rparr>)\<rparr>)\<rparr>
                else if name_ok (snd p)
                then s\<lparr>data_dir := (data_dir s)(fst p \<mapsto>
                       u\<lparr>notes_sub := Some (n\<lparr>media_dirs := (media_dirs n)(snd p := None)\<rparr>)\<rparr>)\<rparr>
                else s)))"

definition read_legacy :: "fs \<Rightarrow> string \<times> string \<Rightarrow> legacy_dir" where
  "read_legacy s p =
     (case user_dir_at s (fst p) of
        None \<Rightarrow> empty_legacy_dir
      | Some u \<Rightarrow> (if name_ok (snd p) then legacy_sub u (snd p) else empty_legacy_dir))"

definition read_shared :: "fs \<Rightarrow> string \<Rightarrow> share_entry jfile" where
  "read_shared s k =
     (case shared_dir s of
        None \<Rightarrow> Missing
      | Some f \<Rightarrow> (if name_ok (k @ ''.json'') then f k else Missing))"

definition write_shared :: "fs \<Rightarrow> string \<Rightarrow> share_entry \<Rightarrow> fs option" where
  "write_shared s k e =
     (case shared_dir s of
        None \<Rightarrow> None
      | Some f \<Rightarrow>
          (if name_ok (k @ ''.json'') then Some (s\<lparr>shared_dir := Some (f(k := Doc e))\<rparr>) else None))"

definition unlink_shared :: "fs \<Rightarrow> string \<Rightarrow> fs" where
  "unlink_shared s k =
     (case shared_dir s of
        None \<Rightarrow> s
      | Some f \<Rightarrow> (if name_ok (k @ ''.json'') then s\<lparr>shared_dir := Some (f(k := Missing))\<rparr> else s))"

section \<open>The registries and the per-user store\<close>

definition ensureSharedDir :: "fs \<Rightarrow> fs" where
  "ensureSharedDir s =
     (case shared_dir s of
        Some _ \<Rightarrow> s
      | None \<Rightarrow> s\<lparr>shared_dir := Some (\<lambda>_. Missing)\<rparr>)"

definition loadUsers :: "fs \<Rightarrow> (string \<times> account) list" where
  "loadUsers s = (case users_json s of Doc us \<Rightarrow> us | _ \<Rightarrow> [])"

definition saveUsers :: "fs \<Rightarrow> (string \<times> account) list \<Rightarrow> fs" where
  "saveUsers s us = s\<lparr>users_json := Doc us\<rparr>"

text \<open>
  \<open>addUserToSystemIndex\<close>: the index is read and parsed; the name is pushed and the file
  rewritten when the list does not include it. Any error is logged and swallowed.
\<close>

definition addUserToSystemIndex :: "fs \<Rightarrow> string \<Rightarrow> fs" where
  "addUserToSystemIndex s userId =
     (case users_index_json s of
        Doc index \<Rightarrow>
          (if userId \<notin> set index then s\<lparr>users_index_json := Doc (index @ [userId])\<rparr> else s)
      | _ \<Rightarrow> s)"

text \<open>
  \<open>ensureUserDir\<close>: a missing user directory is made together with its \<open>notes\<close>
  directory and an empty database, and the user is added to the system index; then a
  missing \<open>notes\<close> directory and a missing database file are made good. With a name
  that the file system does not take, \<open>fs.access\<close> fails and \<open>fs.mkdir\<close> is rejected:
  the function throws. \<open>ensureUserDir_steps\<close> is its body for a name that is taken.
\<close>

definition ensureUserDir_steps :: "fs \<Rightarrow> string \<Rightarrow> fs" where
  "ensureUserDir_steps s userId =
     (let d = getUserDir userId;
          s1 = (case data_dir s d of
                  Some _ \<Rightarrow> s
                | None \<Rightarrow>
                    addUserToSystemIndex
                      (s\<lparr>data_dir := (data_dir s)(d \<mapsto>
                         \<lparr>database_json = Doc empty_database,
                          notes_sub = Some empty_notes_dir,
                          legacy_sub = (\<lambda>_. empty_legacy_dir)\<rparr>)\<rparr>)
                      userId);
          s2 = (case data_dir s1 d of
                  None \<Rightarrow> s1
                | Some u \<Rightarrow>
                    (case notes_sub u of
                       Some _ \<Rightarrow> s1
                     | None \<Rightarrow>
                         s1\<lparr>data_dir := (data_dir s1)(d \<mapsto> u\<lparr>notes_sub := Some empty_notes_dir\<rparr>)\<rparr>));
          s3 = (case data_dir s2 d of
                  None \<Rightarrow> s2
                | Some u \<Rightarrow>
                    (case database_json u of
                       Missing \<Rightarrow>
                         s2\<lparr>data_dir := (data_dir s2)(d \<mapsto> u\<lparr>database_json := Doc empty_database\<rparr>)\<rparr>
                     | _ \<Rightarrow> s2))
      in s3)"

definition ensureUserDir :: "fs \<Rightarrow> string \<Rightarrow> unit outcome" where
  "ensureUserDir s userId =
     (if name_ok (getUserDir userId)
      then Returned () (ensureUserDir_steps s userId)
      else Threw EINVAL s)"

definition loadUserDatabase :: "fs \<Rightarrow> string \<Rightarrow> database" where
  "loadUserDatabase s userId =
     (case read_database_json s (getUserDir userId) of
        Doc db \<Rightarrow> db
      | _ \<Rightarrow> empty_database)"

definition saveUserDatabase :: "fs \<Rightarrow> string \<Rightarrow> database \<Rightarrow> unit outcome" where
  "saveUserDatabase s userId db =
     (case write_database_json s (getUserDir userId) db of
        Some s' \<Rightarrow> Returned () s'
      | None \<Rightarrow> Threw (if name_ok (getUserDir userId) then ENOENT else EINVAL) s)"

text \<open>
  \<open>readLegacyNoteData\<close>: the split shape first (\<open>metadata.json\<close>, with \<open>content.md\<close>
  read as the empty string when it is missing); when reading or parsing the metadata
  fails, the combined \<open>note.json\<close>, whose own failure is thrown on.
\<close>

definition readLegacyNoteData :: "fs \<Rightarrow> string \<Rightarrow> string \<Rightarrow> error + note_data" where
  "readLegacyNoteData s userId noteId =
     (let legacyDir = read_legacy s (getLegacyNoteDir userId noteId) in
      case metadata_json legacyDir of
        Doc metadata \<Rightarrow>
          Inr (meta.extend metadata (note_data.fields (Some (or_else (content_md legacyDir) []))))
      | _ \<Rightarrow>
          (case note_json legacyDir of
             Doc legacy \<Rightarrow> Inr legacy
           | Missing \<Rightarrow> Inl ENOENT
           | Garbage \<Rightarrow> Inl SyntaxError))"

text \<open>
  \<open>readNoteData\<close>: \<open>database.notes[noteId]\<close> is tested for truth. An own entry is a
  note's metadata and is spread into the result. For an identifier that names a property
  of the prototype and no own entry, the value is truthy as well; it has no enumerable
  properties of its own, so the result has the \<open>markdown\<close> property alone.
\<close>

definition no_metadata :: meta where
  "no_metadata = \<lparr>title = None, tags = None, groups = None, isPasswordProtected = None,
                   password = None, shareId = None, createdAt = None, updatedAt = None\<rparr>"

definition readNoteData :: "fs \<Rightarrow> string \<Rightarrow> string \<Rightarrow> error + note_data" where
  "readNoteData s userId noteId =
     (let database = loadUserDatabase s userId in
      case js_get (db_notes database) noteId of
        Undefined \<Rightarrow> readLegacyNoteData s userId noteId
      | Own noteMetadata \<Rightarrow>
          Inr (meta.extend noteMetadata
            (note_data.fields (Some (or_else (read_md s (getNoteFilePath userId noteId)) []))))
      | Inherited \<Rightarrow>
          Inr (meta.extend no_metadata
            (note_data.fields (Some (or_else (read_md s (getNoteFilePath userId noteId)) [])))))"

text \<open>
  \<open>writeNoteData\<close> in its two steps: first the database is loaded, the entry set and
  the database saved; then the markdown file is written (\<open>markdown || ''\<close>).
\<close>

definition writeNoteData_database :: "fs \<Rightarrow> string \<Rightarrow> string \<Rightarrow> note_data \<Rightarrow> unit outcome" where
  "writeNoteData_database s userId noteId data =
     (let metadata = meta.truncate data;
          database = loadUserDatabase s userId
      in saveUserDatabase s userId
           (database\<lparr>db_notes := js_set noteId metadata (db_notes database)\<rparr>))"

definition writeNoteData_markdown :: "fs \<Rightarrow> string \<Rightarrow> string \<Rightarrow> note_data \<Rightarrow> unit outcome" where
  "writeNoteData_markdown s userId noteId data =
     (let notePath = getNoteFilePath userId noteId in
      case write_md s notePath (str_or (markdown data) []) of
        Some s' \<Rightarrow> Returned () s'
      | None \<Rightarrow>
          Threw (if name_ok (fst notePath) \<and> name_ok (snd notePath @ ''.md'')
                 then ENOENT else EINVAL) s)"

definition writeNoteData :: "fs \<Rightarrow> string \<Rightarrow> string \<Rightarrow> note_data \<Rightarrow> unit outcome" where
  "writeNoteData s userId noteId data =
     (case writeNoteData_database s userId noteId data of
        Threw e s1 \<Rightarrow> Threw e s1
      | Returned _ s1 \<Rightarrow> writeNoteData_markdown s1 userId noteId data)"

text \<open>
  The file systems a reader running beside one \<open>writeNoteData\<close> can meet: the one
  before the call, the one between the two awaited writes, and the one after it.
\<close>

definition writeNoteData_states :: "fs \<Rightarrow> string \<Rightarrow> string \<Rightarrow> note_data \<Rightarrow> fs list" where
  "writeNoteData_states s userId noteId data =
     [s, state_of (writeNoteData_database s userId noteId data),
      state_of (writeNoteData s userId noteId data)]"

section \<open>Listing and search\<close>

text \<open>
  The summary of \<open>getNotesForUser\<close>: the characters \<open>#*_~`[]\<close> are removed, every run
  of line feeds becomes one space, the result is trimmed and cut to 100 characters;
  three dots are appended when the markdown itself is longer than 100.
\<close>

definition markdown_formatting :: "char \<Rightarrow> bool" where
  "markdown_formatting c =
     (c = CHR ''#'' \<or> c = CHR ''*'' \<or> c = CHR ''_'' \<or> c = CHR ''~'' \<or> c = CHR 0x60
      \<or> c = CHR ''['' \<or> c = CHR '']'')"

definition remove_formatting :: "string \<Rightarrow> string" where
  "remove_formatting t = filter (\<lambda>c. \<not> markdown_formatting c) t"

function newlines_to_space :: "string \<Rightarrow> string" where
  "newlines_to_space [] = []"
| "newlines_to_space (c # cs) =
     (if c = CHR 0x0A
      then CHR '' '' # newlines_to_space (dropWhile (\<lambda>x. x = CHR 0x0A) cs)
      else c # newlines_to_space cs)"
  by pat_completeness auto
termination
  by (relation "measure length") (auto simp: le_imp_less_Suc length_dropWhile_le)

text \<open>White space in the sense of \<open>trim\<close>, on the Latin-1 range.\<close>

definition white_space :: "char \<Rightarrow> bool" where
  "white_space c =
     (c = CHR 0x09 \<or> c = CHR 0x0A \<or> c = CHR 0x0B \<or> c = CHR 0x0C \<or> c = CHR 0x0D
      \<or> c = CHR 0x20 \<or> c = CHR 0xA0)"

definition trim :: "string \<Rightarrow> string" where
  "trim t = rev (dropWhile white_space (rev (dropWhile white_space t)))"

definition summary_of :: "string \<Rightarrow> string" where
  "summary_of md =
     (if md = [] then []
      else take 100 (trim (newlines_to_space (remove_formatting md)))
             @ (if length md > 100 then ''...'' else []))"

record listed_note =
  l_id :: string
  l_name :: string
  l_path :: string
  l_type :: string
  l_tags :: "string list"
  l_groups :: "string list"
  l_isPasswordProtected :: bool
  l_isShared :: bool
  l_shareId :: "string option"
  l_createdAt :: "string option"
  l_updatedAt :: "string option"
  l_summary :: string

definition listed :: "fs \<Rightarrow> string \<Rightarrow> string \<times> meta \<Rightarrow> listed_note" where
  "listed s userId e =
     (let noteId = fst e; metadata = snd e;
          md = or_else (read_md s (getNoteFilePath userId noteId)) []
      in \<lparr>l_id = noteId,
          l_name = str_or (title metadata) ''Untitled'',
          l_path = noteId,
          l_type = ''file'',
          l_tags = or_else (tags metadata) [],
          l_groups = or_else (groups metadata) [],
          l_isPasswordProtected = or_else (isPasswordProtected metadata) False,
          l_isShared = truthy (shareId metadata),
          l_shareId = shareId metadata,
          l_createdAt = createdAt metadata,
          l_updatedAt = updatedAt metadata,
          l_summary = summary_of md\<rparr>)"

text \<open>
  \<open>getNotesForUser\<close>: one record per entry of the database, sorted by \<open>updatedAt\<close>,
  most recent first (the sort is stable). \<open>date_ms\<close> stands for \<open>new Date(...)\<close> as a
  number. The order is that of the code when every time stamp parses; for a time stamp
  that is absent or does not parse the comparator answers \<open>NaN\<close>, and the place of such
  a note in the result is left to the engine's sort: nothing below speaks of the order.
\<close>

definition getNotesForUser :: "(string option \<Rightarrow> int) \<Rightarrow> fs \<Rightarrow> string \<Rightarrow> listed_note list" where
  "getNotesForUser date_ms s userId =
     (let database = loadUserDatabase s userId;
          found = map (listed s userId) (db_notes database)
      in sort_key (\<lambda>n. - date_ms (l_updatedAt n)) found)"

record search_result =
  r_name :: string
  r_path :: string
  r_preview :: string
  r_tags :: "string list"

text \<open>
  One round of the loop of \<open>searchNotes\<close>. A note without a title makes
  \<open>metadata.title.toLowerCase()\<close> throw, and the \<open>catch\<close> skips the note.
\<close>

definition tagsMatch :: "meta \<Rightarrow> string \<Rightarrow> bool" where
  "tagsMatch metadata query =
     (case tags metadata of
        None \<Rightarrow> False
      | Some ts \<Rightarrow> list_ex (\<lambda>tag. includes_str (toLowerCase tag) query) ts)"

definition search_note :: "fs \<Rightarrow> string \<Rightarrow> string \<Rightarrow> string \<times> meta \<Rightarrow> search_result option" where
  "search_note s userId query e =
     (let noteId = fst e; metadata = snd e;
          md = or_else (read_md s (getNoteFilePath userId noteId)) []
      in case title metadata of
           None \<Rightarrow> None
         | Some t \<Rightarrow>
             (if includes_str (toLowerCase t) query
                 \<or> (md \<noteq> [] \<and> includes_str (toLowerCase md) query)
                 \<or> tagsMatch metadata query
              then Some \<lparr>r_name = t, r_path = noteId,
                         r_preview = (if md \<noteq> [] then take 100 md else []),
                         r_tags = or_else (tags metadata) []\<rparr>
              else None))"

definition searchNotes :: "fs \<Rightarrow> string \<Rightarrow> string \<Rightarrow> search_result list" where
  "searchNotes s userId query =
     List.map_filter (search_note s userId query) (db_notes (loadUserDatabase s userId))"

text \<open>The route \<open>GET /api/search\<close>; \<open>q\<close> is the query parameter, absent or a string.\<close>

definition search_route :: "fs \<Rightarrow> string \<Rightarrow> string option \<Rightarrow> search_result list response \<times> fs" where
  "search_route s userId q =
     (case ensureUserDir s userId of
        Threw e s1 \<Rightarrow> (Failure 500 (error_message e), s1)
      | Returned _ s1 \<Rightarrow>
          (case q of
             None \<Rightarrow> (Failure 500 (error_message TypeError), s1)
           | Some qs \<Rightarrow> (Success (searchNotes s1 userId (toLowerCase qs)), s1)))"

section \<open>Deleting a note\<close>

text \<open>
  The route \<open>DELETE /api/file/:noteId\<close>: the entry is deleted from the loaded database
  and the database saved (an error here ends the route with status 500); unlinking the
  markdown file and removing the media directory swallow their errors.
\<close>

definition delete_route :: "fs \<Rightarrow> string \<Rightarrow> string \<Rightarrow> unit response \<times> fs" where
  "delete_route s userId noteId =
     (let database = loadUserDatabase s userId in
      case saveUserDatabase s userId
             (database\<lparr>db_notes := js_delete noteId (db_notes database)\<rparr>) of
        Threw e s1 \<Rightarrow> (Failure 500 (error_message e), s1)
      | Returned _ s1 \<Rightarrow>
          (let s2 = unlink_md s1 (getNoteFilePath userId noteId);
               s3 = rm_media s2 (getNoteMediaDir userId noteId)
           in (Success (), s3)))"

section \<open>Share links\<close>

text \<open>
  The route \<open>POST /api/file/share/:noteId\<close>. \<open>token\<close> is what
  \<open>crypto.randomBytes(16).toString('hex')\<close> yields, \<open>now1\<close> and \<open>now2\<close> the two clock
  readings, \<open>publicUrlBase\<close> the setting read at the end. The answer carries the share
  URL and the share identifier. After \<open>ensureSharedDir\<close> the write of the registry entry
  can fail only for a name that the file system does not take.
\<close>

definition share_route ::
  "string \<Rightarrow> string \<Rightarrow> string \<Rightarrow> string \<Rightarrow> fs \<Rightarrow> string \<Rightarrow> string \<Rightarrow> (string \<times> string) response \<times> fs" where
  "share_route token now1 now2 publicUrlBase s userId noteId =
     (case readNoteData s userId noteId of
        Inl e \<Rightarrow> (Failure 500 (error_message e), s)
      | Inr data \<Rightarrow>
          (if \<not> truthy (shareId data) then
             (let data' = data\<lparr>shareId := Some token, updatedAt := Some now1\<rparr> in
              case writeNoteData s userId noteId data' of
                Threw e s1 \<Rightarrow> (Failure 500 (error_message e), s1)
              | Returned _ s1 \<Rightarrow>
                  (let s2 = ensureSharedDir s1 in
                   case write_shared s2 token
                          \<lparr>share_userId = userId, share_noteId = noteId, share_createdAt = now2\<rparr> of
                     None \<Rightarrow> (Failure 500 (error_message EINVAL), s2)
                   | Some s3 \<Rightarrow> (Success (publicUrlBase @ ''/shared/'' @ token, token), s3)))
           else
             (Success (publicUrlBase @ ''/shared/'' @ or_else (shareId data) [],
                       or_else (shareId data) []), s)))"

text \<open>The route \<open>DELETE /api/file/share/:noteId\<close>.\<close>

definition unshare_route :: "string \<Rightarrow> fs \<Rightarrow> string \<Rightarrow> string \<Rightarrow> unit response \<times> fs" where
  "unshare_route now s userId noteId =
     (case readNoteData s userId noteId of
        Inl e \<Rightarrow> (Failure 500 (error_message e), s)
      | Inr data \<Rightarrow>
          (if truthy (shareId data) then
             (let s1 = unlink_shared s (basename (or_else (shareId data) []));
                  data' = data\<lparr>shareId := None, updatedAt := Some now\<rparr>
              in case writeNoteData s1 userId noteId data' of
                   Threw e s2 \<Rightarrow> (Failure 500 (error_message e), s2)
                 | Returned _ s2 \<Rightarrow> (Success (), s2))
           else (Success (), s)))"

text \<open>
  The public route \<open>GET /api/shared/:shareId\<close>. Its first step resolves the token to the
  pair kept in the registry; every thrown error is answered with 404.
\<close>

definition resolve_share :: "fs \<Rightarrow> string \<Rightarrow> error + string \<times> string" where
  "resolve_share s token =
     (case read_shared s (basename token) of
        Doc sharedData \<Rightarrow> Inr (share_userId sharedData, share_noteId sharedData)
      | Missing \<Rightarrow> Inl ENOENT
      | Garbage \<Rightarrow> Inl SyntaxError)"



section \<open>Saving a note\<close>

text \<open>The body of \<open>POST /api/file/:noteId\<close>; every property may be absent.\<close>

record save_body =
  b_markdown :: "string option"
  b_title :: "string option"
  b_tags :: "string list option"
  b_groups :: "string list option"
  b_password :: "string option"
  b_isPasswordProtected :: "bool option"

text \<open>
  The route builds a fresh object; when the note can be read, \<open>createdAt\<close> and
  \<open>shareId\<close> are taken from it, the groups too when the body has none, and the password
  hash when protection is asked for without a new password. \<open>bcrypt_hash\<close> stands for
  \<open>bcrypt.hash(password, 10)\<close>, \<open>now1\<close> and \<open>now2\<close> for the two clock readings.
\<close>

definition save_data ::
  "(string \<Rightarrow> string) \<Rightarrow> string \<Rightarrow> string \<Rightarrow> save_body \<Rightarrow> error + note_data \<Rightarrow> note_data" where
  "save_data bcrypt_hash now1 now2 body existing =
     (let protected = or_else (b_isPasswordProtected body) False;
          data = \<lparr>title = Some (str_or (b_title body) ''Untitled''),
                  tags = Some (or_else (b_tags body) []),
                  groups = Some (or_else (b_groups body) []),
                  isPasswordProtected = Some protected,
                  password = None,
                  shareId = None,
                  createdAt = Some now1,
                  updatedAt = Some now2,
                  markdown = b_markdown body\<rparr>
      in case existing of
           Inr existingData \<Rightarrow>
             (let data1 = data\<lparr>createdAt := createdAt existingData, shareId := shareId existingData\<rparr>;
                  data2 = (if b_groups body = None
                           then data1\<lparr>groups := Some (or_else (groups existingData) [])\<rparr>
                           else data1)
              in if protected \<and> truthy (b_password body)
                 then data2\<lparr>password := Some (bcrypt_hash (or_else (b_password body) []))\<rparr>
                 else if protected \<and> truthy (password existingData)
                 then data2\<lparr>password := password existingData\<rparr>
                 else data2)
         | Inl e \<Rightarrow>
             (if protected \<and> truthy (b_password body)
              then data\<lparr>password := Some (bcrypt_hash (or_else (b_password body) []))\<rparr>
              else data))"

definition save_route ::
  "(string \<Rightarrow> string) \<Rightarrow> string \<Rightarrow> string \<Rightarrow> fs \<Rightarrow> string \<Rightarrow> string \<Rightarrow> save_body \<Rightarrow> unit response \<times> fs" where
  "save_route bcrypt_hash now1 now2 s userId noteId body =
     (case ensureUserDir s userId of
        Threw e s0 \<Rightarrow> (Failure 500 (error_message e), s0)
      | Returned _ s0 \<Rightarrow>
          (let data = save_data bcrypt_hash now1 now2 body (readNoteData s0 userId noteId)
           in case writeNoteData s0 userId noteId data of
                Threw e s1 \<Rightarrow> (Failure 500 (error_message e), s1)
              | Returned _ s1 \<Rightarrow> (Success (), s1)))"

section \<open>Importing a backup\<close>

text \<open>
  The backup document as parsed: per user the \<open>database\<close> (absent, or with its \<open>notes\<close>
  object absent or present) and the \<open>notes\<close> object of markdown texts; at the top the
  version, the accounts, the users index (absent, or with its \<open>users\<close> list absent or
  present) and the user data. Objects are the lists of their entries in order.
\<close>

record user_backup =
  ub_database :: "(string \<times> meta) list option option"
  ub_notes :: "(string \<times> string) list option"

record backup =
  bk_version :: "string option"
  bk_users :: "(string \<times> account) list option"
  bk_usersIndex :: "string list option option"
  bk_userData :: "(string \<times> user_backup) list option"

datatype upload = NoFile | NotJson | Parsed backup

text \<open>
  The first loop: an account whose name reads as \<open>undefined\<close> in the local accounts is
  assigned and counted, and its directory ensured; an error of \<open>ensureUserDir\<close> ends the
  route.
\<close>

fun import_users ::
  "(string \<times> account) list \<Rightarrow> (string \<times> account) list \<times> nat \<times> fs
     \<Rightarrow> error option \<times> (string \<times> account) list \<times> nat \<times> fs" where
  "import_users [] acc = (None, acc)"
| "import_users ((username, userData) # rest) (existingUsers, importedUsers, s) =
     (if js_get existingUsers username = Undefined
      then (case ensureUserDir s username of
              Threw e s1 \<Rightarrow> (Some e, js_set username userData existingUsers, Suc importedUsers, s1)
            | Returned _ s1 \<Rightarrow>
                import_users rest (js_set username userData existingUsers, Suc importedUsers, s1))
      else import_users rest (existingUsers, importedUsers, s))"

text \<open>The users index: names not yet included are pushed, then the file is rewritten.\<close>

fun merge_index :: "string list \<Rightarrow> string list \<Rightarrow> string list" where
  "merge_index [] existingIndex = existingIndex"
| "merge_index (username # rest) existingIndex =
     (if username \<notin> set existingIndex
      then merge_index rest (existingIndex @ [username])
      else merge_index rest existingIndex)"

definition import_index :: "string list option option \<Rightarrow> fs \<Rightarrow> fs" where
  "import_index usersIndex s =
     (case usersIndex of
        None \<Rightarrow> s
      | Some ix \<Rightarrow>
          (case users_index_json s of
             Doc existingIndex \<Rightarrow>
               s\<lparr>users_index_json := Doc (merge_index (or_else ix []) existingIndex)\<rparr>
           | _ \<Rightarrow> s))"

text \<open>
  Merging one user's notes: an entry whose identifier reads as \<open>undefined\<close> in the local
  notes is assigned and counted.
\<close>

fun merge_notes ::
  "(string \<times> meta) list \<Rightarrow> (string \<times> meta) list \<times> nat \<Rightarrow> (string \<times> meta) list \<times> nat" where
  "merge_notes [] acc = acc"
| "merge_notes ((noteId, noteData) # rest) (existing, importedNotes) =
     (if js_get existing noteId = Undefined
      then merge_notes rest (js_set noteId noteData existing, Suc importedNotes)
      else merge_notes rest (existing, importedNotes))"

text \<open>
  The markdown files of one user: a file is written only when \<open>fs.access\<close> fails; a
  failed write ends the user's \<open>try\<close> block.
\<close>

fun import_markdown :: "string \<Rightarrow> (string \<times> string) list \<Rightarrow> fs \<Rightarrow> fs" where
  "import_markdown username [] s = s"
| "import_markdown username ((noteId, md) # rest) s =
     (let notePath = getNoteFilePath username noteId in
      case read_md s notePath of
        Some _ \<Rightarrow> import_markdown username rest s
      | None \<Rightarrow>
          (case write_md s notePath md of
             None \<Rightarrow> s
           | Some s' \<Rightarrow> import_markdown username rest s'))"

text \<open>
  The body of the \<open>try\<close> block for one user of \<open>backup.userData\<close>; an error ends the
  block and leaves the counter as it is at that point.
\<close>

definition import_user_data :: "string \<times> user_backup \<Rightarrow> nat \<times> fs \<Rightarrow> nat \<times> fs" where
  "import_user_data entry acc =
     (let username = fst entry; userData = snd entry;
          importedNotes = fst acc
      in case ensureUserDir (snd acc) username of
           Threw e s1 \<Rightarrow> (importedNotes, s1)
         | Returned _ s1 \<Rightarrow>
             (case ub_database userData of
                None \<Rightarrow> (importedNotes, import_markdown username (or_else (ub_notes userData) []) s1)
              | Some bnotes \<Rightarrow>
                  (let existingDb = loadUserDatabase s1 username;
                       merged = merge_notes (or_else bnotes []) (db_notes existingDb, importedNotes)
                   in case saveUserDatabase s1 username (existingDb\<lparr>db_notes := fst merged\<rparr>) of
                        Threw e s2 \<Rightarrow> (snd merged, s2)
                      | Returned _ s2 \<Rightarrow>
                          (snd merged,
                           import_markdown username (or_else (ub_notes userData) []) s2))))"

text \<open>
  The route \<open>POST /api/admin/import\<close>; the answer carries the numbers of imported
  accounts and notes. The directories made in the first loop stay when the loop ends
  with an error; the accounts are then not saved.
\<close>

definition import_route :: "fs \<Rightarrow> upload \<Rightarrow> (nat \<times> nat) response \<times> fs" where
  "import_route s up =
     (case up of
        NoFile \<Rightarrow> (Failure 400 ''No backup file provided'', s)
      | NotJson \<Rightarrow> (Failure 500 (error_message SyntaxError), s)
      | Parsed backup \<Rightarrow>
          (case (truthy (bk_version backup), bk_users backup, bk_userData backup) of
             (True, Some users, Some userData) \<Rightarrow>
               (case import_users users (loadUsers s, 0, s) of
                  (Some e, r1) \<Rightarrow> (Failure 500 (error_message e), snd (snd r1))
                | (None, r1) \<Rightarrow>
                    (let s1 = saveUsers (snd (snd r1)) (fst r1);
                         s2 = import_index (bk_usersIndex backup) s1;
                         r2 = fold import_user_data userData (0, s2)
                     in (Success (fst (snd r1), fst r2), snd r2)))
           | _ \<Rightarrow> (Failure 400 ''Invalid backup file format'', s)))"

section \<open>Example file systems\<close>

text \<open>
  A server with no data at all, and one where \<open>alice\<close> has a store holding the note
  \<open>abc123\<close> of the scenario of the specification.
\<close>

definition bare_fs :: fs where
  "bare_fs = \<lparr>users_json = Missing, users_index_json = Missing,
              data_dir = (\<lambda>_. None), shared_dir = None\<rparr>"

definition groceries :: meta where
  "groceries = \<lparr>title = Some ''Groceries'', tags = Some [''home''], groups = Some [],
                isPasswordProtected = Some False, password = None, shareId = None,
                createdAt = Some ''2024-01-01T00:00:00.000Z'',
                updatedAt = Some ''2024-01-02T00:00:00.000Z''\<rparr>"

definition groceries_note :: note_data where
  "groceries_note = meta.extend groceries (note_data.fields (Some ''- milk''))"

definition alice_dir :: user_dir where
  "alice_dir = \<lparr>database_json = Doc \<lparr>db_notes = [(''abc123'', groceries)]\<rparr>,
                notes_sub = Some \<lparr>md_files = (\<lambda>_. None)(''abc123'' \<mapsto> ''- milk''),
                                  media_dirs = (\<lambda>_. None)\<rparr>,
                legacy_sub = (\<lambda>_. empty_legacy_dir)\<rparr>"

definition alice_fs :: fs where
  "alice_fs = \<lparr>users_json = Doc [], users_index_json = Doc [''alice''],
               data_dir = (\<lambda>_. None)(''alice'' \<mapsto> alice_dir), shared_dir = Some (\<lambda>_. Missing)\<rparr>"

text \<open>A store that was made by \<open>ensureUserDir\<close> and holds nothing yet.\<close>

definition new_dir :: user_dir where
  "new_dir = \<lparr>database_json = Doc empty_database, notes_sub = Some empty_notes_dir,
              legacy_sub = (\<lambda>_. empty_legacy_dir)\<rparr>"

definition new_fs :: fs where
  "new_fs = \<lparr>users_json = Doc [], users_index_json = Doc [''alice''],
             data_dir = (\<lambda>_. None)(''alice'' \<mapsto> new_dir), shared_dir = Some (\<lambda>_. Missing)\<rparr>"

text \<open>
  A user whose notes are still in the older layouts: \<open>old1\<close> in the split shape without
  its \<open>content.md\<close>, \<open>old2\<close> as a combined \<open>note.json\<close> beside a metadata file
  that does not parse.
\<close>

definition legacy_dirs :: "string \<Rightarrow> legacy_dir" where
  "legacy_dirs =
     (\<lambda>_. empty_legacy_dir)
       (''old1'' := \<lparr>metadata_json = Doc groceries, content_md = None, note_json = Missing\<rparr>,
        ''old2'' := \<lparr>metadata_json = Garbage, content_md = None, note_json = Doc groceries_note\<rparr>)"

definition legacy_fs :: fs where
  "legacy_fs = \<lparr>users_json = Doc [], users_index_json = Doc [],
                data_dir = (\<lambda>_. None)(''bob'' \<mapsto>
                  \<lparr>database_json = Missing, notes_sub = None, legacy_sub = legacy_dirs\<rparr>),
                shared_dir = Some (\<lambda>_. Missing)\<rparr>"

text \<open>Alice's note put into the group \<open>Work\<close>.\<close>

definition work_fs :: fs where
  "work_fs = \<lparr>users_json = Doc [], users_index_json = Doc [''alice''],
              data_dir = (\<lambda>_. None)(''alice'' \<mapsto>
                alice_dir\<lparr>database_json :=
                  Doc \<lparr>db_notes = [(''abc123'', groceries\<lparr>groups := Some [''Work'']\<rparr>)]\<rparr>\<rparr>),
              shared_dir = Some (\<lambda>_. Missing)\<rparr>"

text \<open>Alice's note shared under a token, with its entry in the registry.\<close>

definition share_token :: string where
  "share_token = ''0123456789abcdef0123456789abcdef''"


text \<open>
  Alice's note shared and protected by a password, and a save request that keeps the
  protection without sending a password.
\<close>

definition locked :: meta where
  "locked = groceries\<lparr>shareId := Some share_token, isPasswordProtected := Some True,
                        password := Some ''$2b$10$abcdefghijklmnopqrstuv''\<rparr>"

definition locked_fs :: fs where
  "locked_fs = \<lparr>users_json = Doc [], users_index_json = Doc [''alice''],
                data_dir = (\<lambda>_. None)(''alice'' \<mapsto>
                  alice_dir\<lparr>database_json := Doc \<lparr>db_notes = [(''abc123'', locked)]\<rparr>\<rparr>),
                shared_dir = Some ((\<lambda>_. Missing)(share_token :=
                  Doc \<lparr>share_userId = ''alice'', share_noteId = ''abc123'',
                       share_createdAt = ''2024-01-03T00:00:00.000Z''\<rparr>))\<rparr>"

definition keep_body :: save_body where
  "keep_body = \<lparr>b_markdown = Some ''- eggs'', b_title = Some ''Shopping'',
                b_tags = Some [''home''], b_groups = None, b_password = None,
                b_isPasswordProtected = Some True\<rparr>"

text \<open>
  A backup with an account of the name \<open>constructor\<close> and, for Alice, a note of the
  identifier \<open>toString\<close>, as the export route writes it after she has saved a note
  under that identifier: both names are properties of every object.
\<close>

definition constructor_account :: account where
  "constructor_account =
     \<lparr>acct_username = ''constructor'', acct_password = ''$2b$10$abcdefghijklmnopqrstuv'',
      acct_isAdmin = False\<rparr>"

definition inherited_backup :: backup where
  "inherited_backup =
     \<lparr>bk_version = Some ''1.0'',
      bk_users = Some [(''constructor'', constructor_account)],
      bk_usersIndex = None,
      bk_userData = Some
        [(''alice'', \<lparr>ub_database = Some (Some [(''toString'', groceries)]),
                      ub_notes = Some [(''toString'', ''- eggs'')]\<rparr>)]\<rparr>"

section \<open>Properties and auxiliary notions\<close>

text \<open>
  The ordering asked of \<open>write\<close>: in no file system that a reader can meet during the
  call does a read return the written metadata without the written content.
\<close>

definition no_stale_read :: "fs \<Rightarrow> string \<Rightarrow> string \<Rightarrow> note_data \<Rightarrow> bool" where
  "no_stale_read s userId noteId data =
     list_all
       (\<lambda>s'. case readNoteData s' userId noteId of
               Inl e \<Rightarrow> True
             | Inr d \<Rightarrow>
                 meta.truncate d = meta.truncate data \<longrightarrow>
                 markdown d = Some (str_or (markdown data) []))
       (writeNoteData_states s userId noteId data)"

text \<open>The directory that \<open>ensureUserDir\<close> leaves for the user.\<close>

definition ensured_dir :: "user_dir option \<Rightarrow> user_dir" where
  "ensured_dir x =
     (case x of
        None \<Rightarrow> \<lparr>database_json = Doc empty_database, notes_sub = Some empty_notes_dir,
                  legacy_sub = (\<lambda>_. empty_legacy_dir)\<rparr>
      | Some u \<Rightarrow>
          u\<lparr>notes_sub := Some (case notes_sub u of None \<Rightarrow> empty_notes_dir | Some n \<Rightarrow> n),
            database_json := (case database_json u of Missing \<Rightarrow> Doc empty_database
                              | Garbage \<Rightarrow> Garbage | Doc db \<Rightarrow> Doc db)\<rparr>)"

section \<open>Facts about objects\<close>

lemma map_of_insert_index:
  "map_of obj key = None \<Longrightarrow> map_of (insert_index n key v obj) = (map_of obj)(key \<mapsto> v)"
proof (induction obj)
  case Nil
  then show ?case by simp
next
  case (Cons p rest)
  from Cons.prems have ne: "fst p \<noteq> key" and r: "map_of rest key = None"
    by (cases p; auto split: if_splits)+
  show ?case
  proof (cases "array_index (fst p)")
    case None
    then show ?thesis by (cases p) (auto simp: fun_eq_iff)
  next
    case (Some m)
    show ?thesis
    proof (cases "m < n")
      case True
      with Some Cons.IH[OF r] ne show ?thesis
        by (cases p) (auto simp: fun_upd_twist)
    next
      case False
      with Some show ?thesis by (cases p) (auto simp: fun_eq_iff)
    qed
  qed
qed

lemma map_of_js_set:
  "key \<noteq> ''__proto__'' \<or> map_of obj key \<noteq> None \<Longrightarrow>
   map_of (js_set key v obj) = (map_of obj)(key \<mapsto> v)"
  by (auto simp: js_set_def update_conv' map_of_insert_index fun_eq_iff map_add_def
      split: option.splits)

lemma js_get_js_set:
  "key \<noteq> ''__proto__'' \<or> map_of obj key \<noteq> None \<Longrightarrow> js_get (js_set key v obj) key = Own v"
  by (simp add: js_get_def map_of_js_set)


section \<open>Facts about the file operations\<close>

lemma read_database_json_write_database_json:
  "write_database_json s d db = Some s' \<Longrightarrow>
   read_database_json s' d' = (if d' = d then Doc db else read_database_json s d')"
  by (auto simp: write_database_json_def read_database_json_def user_dir_at_def
      split: option.splits if_splits)

lemma read_md_write_database_json:
  "write_database_json s d db = Some s' \<Longrightarrow> read_md s' p = read_md s p"
  by (auto simp: write_database_json_def read_md_def user_dir_at_def split: option.splits if_splits)



lemma read_md_write_md:
  "write_md s p t = Some s' \<Longrightarrow> read_md s' q = (if q = p then Some t else read_md s q)"
  by (cases p; cases q)
    (auto simp: write_md_def read_md_def user_dir_at_def split: option.splits if_splits)

lemma read_database_json_write_md:
  "write_md s p t = Some s' \<Longrightarrow> read_database_json s' d = read_database_json s d"
  by (auto simp: write_md_def read_database_json_def user_dir_at_def split: option.splits if_splits)

lemma loadUserDatabase_write_database_json:
  "write_database_json s (getUserDir userId) db = Some s' \<Longrightarrow> loadUserDatabase s' userId = db"
  by (simp add: loadUserDatabase_def read_database_json_write_database_json)

lemma loadUserDatabase_write_md:
  "write_md s p t = Some s' \<Longrightarrow> loadUserDatabase s' userId = loadUserDatabase s userId"
  by (simp add: loadUserDatabase_def read_database_json_write_md)


lemma readNoteData_own:
  "js_get (db_notes (loadUserDatabase s userId)) noteId = Own m \<Longrightarrow>
   readNoteData s userId noteId =
     Inr (meta.extend m (note_data.fields (Some (or_else (read_md s (getNoteFilePath userId noteId)) []))))"
  by (simp add: readNoteData_def)


lemma readNoteData_inherited:
  "js_get (db_notes (loadUserDatabase s userId)) noteId = Inherited \<Longrightarrow>
   readNoteData s userId noteId =
     Inr (meta.extend no_metadata
       (note_data.fields (Some (or_else (read_md s (getNoteFilePath userId noteId)) []))))"
  by (simp add: readNoteData_def)

text \<open>The two steps of \<open>writeNoteData\<close>, when they return.\<close>

lemma writeNoteData_database_form:
  assumes "writeNoteData_database s userId noteId data = Returned () s1"
  shows "write_database_json s (getUserDir userId)
           ((loadUserDatabase s userId)\<lparr>db_notes :=
              js_set noteId (meta.truncate data) (db_notes (loadUserDatabase s userId))\<rparr>) = Some s1"
  using assms
  by (auto simp: writeNoteData_database_def saveUserDatabase_def Let_def split: option.splits)

lemma writeNoteData_markdown_form:
  assumes "writeNoteData_markdown s1 userId noteId data = Returned () s2"
  shows "write_md s1 (getNoteFilePath userId noteId) (str_or (markdown data) []) = Some s2"
  using assms
  by (auto simp: writeNoteData_markdown_def Let_def split: option.splits)

lemma writeNoteData_form:
  assumes "writeNoteData s userId noteId data = Returned () s2"
  shows "\<exists>s1. writeNoteData_database s userId noteId data = Returned () s1
           \<and> writeNoteData_markdown s1 userId noteId data = Returned () s2"
  using assms by (auto simp: writeNoteData_def split: outcome.splits)

section \<open>Facts about the summary\<close>

lemma length_newlines_to_space: "length (newlines_to_space t) \<le> length t"
proof (induction t rule: newlines_to_space.induct)
  case 1
  then show ?case by simp
next
  case (2 c cs)
  have "length (dropWhile (\<lambda>x. x = CHR 0x0A) cs) \<le> length cs"
    by (rule length_dropWhile_le)
  with 2 show ?case by (auto simp del: newlines_to_space.simps simp add: newlines_to_space.simps(2)[of c cs])
qed

lemma length_trim: "length (trim t) \<le> length t"
proof -
  have "length (dropWhile white_space (rev (dropWhile white_space t))) \<le> length (rev (dropWhile white_space t))"
    by (rule length_dropWhile_le)
  also have "\<dots> \<le> length t" by (simp add: length_dropWhile_le)
  finally show ?thesis by (simp add: trim_def)
qed

lemma length_preview_text:
  "length (trim (newlines_to_space (remove_formatting md))) \<le> length md"
proof -
  have "length (trim (newlines_to_space (remove_formatting md))) \<le> length (newlines_to_space (remove_formatting md))"
    by (rule length_trim)
  also have "\<dots> \<le> length (remove_formatting md)" by (rule length_newlines_to_space)
  also have "\<dots> \<le> length md" by (simp add: remove_formatting_def)
  finally show ?thesis .
qed

section \<open>Facts about deleting and the share registry\<close>












text \<open>With the user's directory present the route succeeds, whatever else is absent.\<close>

lemma delete_route_with_directory:
  assumes "user_dir_at s (getUserDir userId) \<noteq> None"
  shows "fst (delete_route s userId noteId) = Success ()"
  using assms
  by (auto simp: delete_route_def saveUserDatabase_def write_database_json_def Let_def
      split: option.splits)

section \<open>Facts about \<open>ensureUserDir\<close>\<close>

lemma data_dir_addUserToSystemIndex: "data_dir (addUserToSystemIndex s userId) = data_dir s"
  by (simp add: addUserToSystemIndex_def split: jfile.splits)

lemma database_json_update_same: "database_json u = x \<Longrightarrow> u\<lparr>database_json := x\<rparr> = u"
  by (cases u) simp

lemma notes_sub_update_same: "notes_sub u = x \<Longrightarrow> u\<lparr>notes_sub := x\<rparr> = u"
  by (cases u) simp

lemma data_dir_ensureUserDir_steps:
  "data_dir (ensureUserDir_steps s userId) =
     (data_dir s)(getUserDir userId \<mapsto> ensured_dir (data_dir s (getUserDir userId)))"
proof (cases "data_dir s (getUserDir userId)")
  case None
  then show ?thesis
    by (simp add: ensureUserDir_steps_def Let_def data_dir_addUserToSystemIndex ensured_dir_def)
next
  case (Some u)
  show ?thesis
  proof (cases "notes_sub u")
    case None
    with Some show ?thesis
      by (cases "database_json u")
        (simp_all add: ensureUserDir_steps_def Let_def ensured_dir_def database_json_update_same)
  next
    case (Some n)
    with \<open>data_dir s (getUserDir userId) = Some u\<close> show ?thesis
      by (cases "database_json u")
        (simp_all add: ensureUserDir_steps_def Let_def ensured_dir_def fun_upd_idem
          database_json_update_same notes_sub_update_same)
  qed
qed

lemma read_database_json_ensureUserDir_steps:
  "name_ok (getUserDir userId) \<Longrightarrow>
   read_database_json (ensureUserDir_steps s userId) d =
     (if d = getUserDir userId \<and> read_database_json s d = Missing then Doc empty_database
      else read_database_json s d)"
  by (simp add: read_database_json_def user_dir_at_def data_dir_ensureUserDir_steps ensured_dir_def
      split: option.splits jfile.splits)

lemma loadUserDatabase_ensureUserDir_steps:
  "name_ok (getUserDir userId) \<Longrightarrow>
   loadUserDatabase (ensureUserDir_steps s userId) x = loadUserDatabase s x"
  by (auto simp: loadUserDatabase_def read_database_json_ensureUserDir_steps split: jfile.splits)

lemma read_md_ensureUserDir_steps: "read_md (ensureUserDir_steps s userId) p = read_md s p"
  by (simp add: read_md_def user_dir_at_def data_dir_ensureUserDir_steps ensured_dir_def
      empty_notes_dir_def split: option.splits)

lemma read_legacy_ensureUserDir_steps: "read_legacy (ensureUserDir_steps s userId) p = read_legacy s p"
  by (simp add: read_legacy_def user_dir_at_def data_dir_ensureUserDir_steps ensured_dir_def
      empty_legacy_dir_def split: option.splits)

lemma readNoteData_ensureUserDir_steps:
  "name_ok (getUserDir userId) \<Longrightarrow>
   readNoteData (ensureUserDir_steps s userId) x noteId = readNoteData s x noteId"
  by (simp add: readNoteData_def readLegacyNoteData_def loadUserDatabase_ensureUserDir_steps
      read_md_ensureUserDir_steps read_legacy_ensureUserDir_steps cong: property.case_cong)

section \<open>Facts about saving\<close>

text \<open>
  What is read back after \<open>writeNoteData\<close> has returned: the written metadata, unless
  the identifier is \<open>__proto__\<close> and the index has no own entry of that name; then the
  assignment has made no entry, and the read finds the prototype.
\<close>

lemma writeNoteData_read:
  assumes "writeNoteData s userId noteId data = Returned () s2"
  shows "readNoteData s2 userId noteId =
           Inr (meta.extend
                  (if noteId \<noteq> ''__proto__''
                      \<or> map_of (db_notes (loadUserDatabase s userId)) noteId \<noteq> None
                   then meta.truncate data else no_metadata)
                  (note_data.fields (Some (str_or (markdown data) []))))"
proof -
  let ?p = "getNoteFilePath userId noteId"
  let ?obj = "db_notes (loadUserDatabase s userId)"
  let ?db = "(loadUserDatabase s userId)\<lparr>db_notes := js_set noteId (meta.truncate data) ?obj\<rparr>"
  from writeNoteData_form[OF assms] obtain s1 where
    d: "writeNoteData_database s userId noteId data = Returned () s1" and
    m: "writeNoteData_markdown s1 userId noteId data = Returned () s2"
    by blast
  note w = writeNoteData_database_form[OF d]
  note v = writeNoteData_markdown_form[OF m]
  have l2: "loadUserDatabase s2 userId = ?db"
    by (simp add: loadUserDatabase_write_md[OF v] loadUserDatabase_write_database_json[OF w])
  have c2: "read_md s2 ?p = Some (str_or (markdown data) [])"
    by (simp add: read_md_write_md[OF v])
  show ?thesis
  proof (cases "noteId \<noteq> ''__proto__'' \<or> map_of ?obj noteId \<noteq> None")
    case True
    then have "js_get (db_notes ?db) noteId = Own (meta.truncate data)"
      by (simp add: js_get_js_set)
    then have g: "js_get (db_notes (loadUserDatabase s2 userId)) noteId = Own (meta.truncate data)"
      by (simp only: l2)
    from True show ?thesis
      by (simp add: readNoteData_own[OF g] c2)
  next
    case False
    then have "js_get (db_notes ?db) noteId = Inherited"
      by (simp add: js_get_def js_set_def object_prototype_names_def)
    then have g: "js_get (db_notes (loadUserDatabase s2 userId)) noteId = Inherited"
      by (simp only: l2)
    have "readNoteData s2 userId noteId =
        Inr (meta.extend no_metadata (note_data.fields (Some (str_or (markdown data) []))))"
      by (simp add: readNoteData_inherited[OF g] c2)
    with False show ?thesis by simp
  qed
qed

lemma save_route_form:
  assumes "save_route bcrypt_hash now1 now2 s userId noteId body = (Success (), s')"
  shows "name_ok (getUserDir userId)
         \<and> writeNoteData (ensureUserDir_steps s userId) userId noteId
             (save_data bcrypt_hash now1 now2 body
                (readNoteData (ensureUserDir_steps s userId) userId noteId)) = Returned () s'"
proof (cases "name_ok (getUserDir userId)")
  case False
  with assms show ?thesis by (simp add: save_route_def ensureUserDir_def)
next
  case True
  let ?s0 = "ensureUserDir_steps s userId"
  let ?data = "save_data bcrypt_hash now1 now2 body (readNoteData ?s0 userId noteId)"
  show ?thesis
  proof (cases "writeNoteData ?s0 userId noteId ?data")
    case (Returned u s1)
    with assms True show ?thesis by (simp add: save_route_def ensureUserDir_def Let_def)
  next
    case (Threw e s1)
    with assms True show ?thesis by (simp add: save_route_def ensureUserDir_def Let_def)
  qed
qed

lemma readNoteData_inherited_only:
  assumes "readNoteData s userId ''__proto__'' = Inr existing"
    and "map_of (db_notes (loadUserDatabase s userId)) ''__proto__'' = None"
  shows "meta.truncate existing = no_metadata"
proof -
  from assms(2) have "js_get (db_notes (loadUserDatabase s userId)) ''__proto__'' = Inherited"
    by (simp add: js_get_def object_prototype_names_def)
  from readNoteData_inherited[OF this] assms(1) show ?thesis
    by (auto simp: meta.defs note_data.defs no_metadata_def)
qed

section \<open>Reading from a store that is not there\<close>

text \<open>
  Claim C8. For a user whose store does not exist on disk, or whose \<open>database.json\<close> is
  missing or does not parse, loading the database gives the empty notes object, and
  listing and searching give the empty sequence; none of them can fail.
\<close>

theorem C8_read_without_store:
  assumes "data_dir s (getUserDir userId) = None
           \<or> read_database_json s (getUserDir userId) = Missing
           \<or> read_database_json s (getUserDir userId) = Garbage"
  shows "loadUserDatabase s userId = \<lparr>db_notes = []\<rparr>
         \<and> getNotesForUser date_ms s userId = []
         \<and> searchNotes s userId query = []"
proof -
  from assms have "read_database_json s (getUserDir userId) = Missing
      \<or> read_database_json s (getUserDir userId) = Garbage"
    by (auto simp: read_database_json_def user_dir_at_def)
  then have load: "loadUserDatabase s userId = \<lparr>db_notes = []\<rparr>"
    by (auto simp: loadUserDatabase_def empty_database_def)
  then show ?thesis
    by (simp add: getNotesForUser_def searchNotes_def)
qed

theorem C8_read_without_store_witness:
  "data_dir bare_fs (getUserDir ''alice'') = None
   \<and> loadUserDatabase bare_fs ''alice'' = \<lparr>db_notes = []\<rparr>
   \<and> getNotesForUser (\<lambda>_. 0) bare_fs ''alice'' = []
   \<and> searchNotes bare_fs ''alice'' ''milk'' = []"
proof -
  have h: "data_dir bare_fs (getUserDir ''alice'') = None"
    by (simp add: bare_fs_def)
  then show ?thesis
    using C8_read_without_store [of bare_fs "''alice''" "\<lambda>_. 0" "''milk''"] by simp
qed

section \<open>The summary of a note\<close>

text \<open>
  Claim C9, as amended. The summary in a listing is a function of the note's content
  alone: the characters \<open>#*_~`[]\<close> are removed, every run of line feeds becomes one
  space (other white space stays as it is), the text is trimmed and cut to 100
  characters, and either nothing or three dots follow. The dots follow whenever the text
  was cut, and never when the content has at most 100 characters.
\<close>

theorem C9_summary:
  "l_summary (listed s userId e) = summary_of (or_else (read_md s (getNoteFilePath userId (fst e))) [])
   \<and> (\<exists>dots. summary_of md = take 100 (trim (newlines_to_space (remove_formatting md))) @ dots
          \<and> (dots = [] \<or> dots = ''...'')
          \<and> (100 < length (trim (newlines_to_space (remove_formatting md))) \<longrightarrow> dots = ''...'')
          \<and> (length md \<le> 100 \<longrightarrow> dots = []))"
proof
  show "l_summary (listed s userId e) = summary_of (or_else (read_md s (getNoteFilePath userId (fst e))) [])"
    by (simp add: listed_def Let_def)
next
  have le: "length (trim (newlines_to_space (remove_formatting md))) \<le> length md"
    by (rule length_preview_text)
  show "\<exists>dots. summary_of md = take 100 (trim (newlines_to_space (remove_formatting md))) @ dots
          \<and> (dots = [] \<or> dots = ''...'')
          \<and> (100 < length (trim (newlines_to_space (remove_formatting md))) \<longrightarrow> dots = ''...'')
          \<and> (length md \<le> 100 \<longrightarrow> dots = [])"
  proof (cases "md = []")
    case True
    then show ?thesis by (simp add: summary_of_def remove_formatting_def trim_def)
  next
    case False
    show ?thesis
    proof (cases "100 < length md")
      case True
      with False show ?thesis by (intro exI[of _ "''...''"]) (simp add: summary_of_def)
    next
      case False
      with le \<open>md \<noteq> []\<close> show ?thesis by (intro exI[of _ "[]"]) (simp add: summary_of_def)
    qed
  qed
qed

theorem C9_summary_witness:
  "length ''# Shopping [list]'' \<le> 100 \<and> summary_of ''# Shopping [list]'' = ''Shopping list''"
proof -
  have h: "length ''# Shopping [list]'' \<le> 100" by simp
  from C9_summary [of bare_fs "''alice''" "(''abc123'', groceries)" "''# Shopping [list]''"] h
  have "summary_of ''# Shopping [list]'' =
      take 100 (trim (newlines_to_space (remove_formatting ''# Shopping [list]'')))"
    by auto
  also have "\<dots> = ''Shopping list''" by code_simp
  finally show ?thesis using h by simp
qed

text \<open>
  A content of 101 number signs: nothing is left of it after the removal, so nothing is
  cut, and yet the dots are appended. Two spaces in a row are not collapsed.
\<close>

theorem C9_ellipsis_counterexample:
  "trim (newlines_to_space (remove_formatting (replicate 101 (CHR ''#'')))) = []
   \<and> summary_of (replicate 101 (CHR ''#'')) = ''...''
   \<and> summary_of ''a  b'' = ''a  b''"
  by code_simp

section \<open>Reading a note\<close>

text \<open>
  Claim C2, at an identifier that is absent from the index and from the older layouts.
  Alice asks for the note \<open>constructor\<close>: her index has no such entry and no older
  layout has the note, so the legacy reader fails with \<open>ENOENT\<close>; but
  \<open>database.notes['constructor']\<close> is the constructor of the object, which is truthy,
  and \<open>readNoteData\<close> returns a note that has the empty content and nothing else.
\<close>

theorem C2_inherited_name_read:
  "map_of (db_notes (loadUserDatabase alice_fs ''alice'')) ''constructor'' = None
   \<and> readLegacyNoteData alice_fs ''alice'' ''constructor'' = Inl ENOENT
   \<and> readNoteData alice_fs ''alice'' ''constructor'' =
       Inr (meta.extend no_metadata (note_data.fields (Some [])))"
  by code_simp

section \<open>The order of the two writes\<close>

text \<open>
  Claim C1, as amended. \<open>writeNoteData\<close> saves the metadata index first and writes the
  content file second. Between the two writes the index holds the assignment of the
  written metadata while the content file is as it was before the call; after the call
  the content file holds the written content. For an identifier other than
  \<open>__proto__\<close>, and for that one too when the index has an own entry of the name, a read
  between the two writes returns the written metadata with the content as it was before
  the call (the empty string when there was none), and a read after the call returns the
  written metadata with the written content.
\<close>

theorem C1_write_order:
  assumes "writeNoteData s userId noteId data = Returned () s2"
  shows "\<exists>s1. writeNoteData_states s userId noteId data = [s, s1, s2]
           \<and> loadUserDatabase s1 userId =
               (loadUserDatabase s userId)\<lparr>db_notes :=
                  js_set noteId (meta.truncate data) (db_notes (loadUserDatabase s userId))\<rparr>
           \<and> read_md s1 (getNoteFilePath userId noteId) = read_md s (getNoteFilePath userId noteId)
           \<and> read_md s2 (getNoteFilePath userId noteId) = Some (str_or (markdown data) [])
           \<and> (noteId \<noteq> ''__proto__''
                 \<or> map_of (db_notes (loadUserDatabase s userId)) noteId \<noteq> None \<longrightarrow>
                readNoteData s1 userId noteId =
                  Inr (meta.extend (meta.truncate data)
                    (note_data.fields (Some (or_else (read_md s (getNoteFilePath userId noteId)) []))))
                \<and> readNoteData s2 userId noteId =
                  Inr (meta.extend (meta.truncate data)
                    (note_data.fields (Some (str_or (markdown data) [])))))"
proof -
  let ?p = "getNoteFilePath userId noteId"
  let ?db = "(loadUserDatabase s userId)\<lparr>db_notes :=
      js_set noteId (meta.truncate data) (db_notes (loadUserDatabase s userId))\<rparr>"
  from writeNoteData_form[OF assms] obtain s1 where
    d: "writeNoteData_database s userId noteId data = Returned () s1" and
    m: "writeNoteData_markdown s1 userId noteId data = Returned () s2"
    by blast
  note w = writeNoteData_database_form[OF d]
  note v = writeNoteData_markdown_form[OF m]
  have st: "writeNoteData_states s userId noteId data = [s, s1, s2]"
    by (simp add: writeNoteData_states_def d assms)
  have l1: "loadUserDatabase s1 userId = ?db"
    by (rule loadUserDatabase_write_database_json[OF w])
  have l2: "loadUserDatabase s2 userId = ?db"
    by (simp add: loadUserDatabase_write_md[OF v] l1)
  have c1: "read_md s1 ?p = read_md s ?p"
    by (rule read_md_write_database_json[OF w])
  have c2: "read_md s2 ?p = Some (str_or (markdown data) [])"
    by (simp add: read_md_write_md[OF v])
  have r: "readNoteData s1 userId noteId =
             Inr (meta.extend (meta.truncate data)
               (note_data.fields (Some (or_else (read_md s ?p) []))))
           \<and> readNoteData s2 userId noteId =
             Inr (meta.extend (meta.truncate data)
               (note_data.fields (Some (str_or (markdown data) []))))"
    if ne: "noteId \<noteq> ''__proto__''
              \<or> map_of (db_notes (loadUserDatabase s userId)) noteId \<noteq> None"
  proof -
    from ne have g: "js_get (db_notes ?db) noteId = Own (meta.truncate data)"
      by (simp add: js_get_js_set)
    have g1: "js_get (db_notes (loadUserDatabase s1 userId)) noteId = Own (meta.truncate data)"
      by (simp only: l1 g)
    have g2: "js_get (db_notes (loadUserDatabase s2 userId)) noteId = Own (meta.truncate data)"
      by (simp only: l2 g)
    show ?thesis
      by (simp add: readNoteData_own[OF g1] readNoteData_own[OF g2] c1 c2)
  qed
  from st l1 c1 c2 r show ?thesis by blast
qed

lemma new_fs_write:
  "writeNoteData new_fs ''alice'' ''abc123'' groceries_note = Returned () alice_fs"
  by (simp add: writeNoteData_def writeNoteData_database_def writeNoteData_markdown_def
      saveUserDatabase_def write_database_json_def write_md_def user_dir_at_def
      loadUserDatabase_def read_database_json_def getNoteFilePath_def getUserDir_def
      basename_def name_ok_def utf8_length_def digit7_def js_set_def array_index_def is_digit_def
      new_fs_def new_dir_def alice_fs_def alice_dir_def empty_database_def empty_notes_dir_def
      groceries_note_def groceries_def meta.defs note_data.defs Let_def)

theorem C1_write_order_witness:
  "\<exists>s1. writeNoteData_states new_fs ''alice'' ''abc123'' groceries_note = [new_fs, s1, alice_fs]
      \<and> readNoteData s1 ''alice'' ''abc123'' = Inr (meta.extend groceries (note_data.fields (Some [])))
      \<and> readNoteData alice_fs ''alice'' ''abc123'' = Inr groceries_note"
proof -
  have p: "read_md new_fs (getNoteFilePath ''alice'' ''abc123'') = None"
    by code_simp
  have t: "meta.truncate groceries_note = groceries"
    by (simp add: groceries_note_def meta.defs note_data.defs groceries_def)
  have k: "str_or (markdown groceries_note) [] = ''- milk''"
    by (simp add: groceries_note_def meta.defs note_data.defs)
  have g: "meta.extend groceries (note_data.fields (Some ''- milk'')) = groceries_note"
    by (simp add: groceries_note_def)
  have n: "''abc123'' \<noteq> ''__proto__''" by simp
  from C1_write_order [OF new_fs_write] n show ?thesis
    unfolding p t k g by auto
qed

text \<open>
  Writing the groceries note into a new store: between the two writes the index already
  has the entry while the content file does not exist, so the read returns the new
  metadata with empty content.
\<close>

theorem C1_stale_read_counterexample:
  "\<not> no_stale_read new_fs ''alice'' ''abc123'' groceries_note
   \<and> readNoteData (state_of (writeNoteData_database new_fs ''alice'' ''abc123'' groceries_note))
         ''alice'' ''abc123'' = Inr (meta.extend groceries (note_data.fields (Some [])))"
  by code_simp

section \<open>Search\<close>

text \<open>
  Claim C6, at a note whose group matches the query. Alice's only note is in the group
  \<open>Work\<close>, and the lower-cased group contains the lower-cased query \<open>work\<close>; the
  search tests the title, the content and the tags only, and finds nothing.
\<close>

theorem C6_groups_not_searched:
  "db_notes (loadUserDatabase work_fs ''alice'') = [(''abc123'', groceries\<lparr>groups := Some [''Work'']\<rparr>)]
   \<and> includes_str (toLowerCase ''Work'') (toLowerCase ''work'')
   \<and> fst (search_route work_fs ''alice'' (Some ''work'')) = Success []"
  by code_simp

section \<open>Deleting a note\<close>

text \<open>
  Claim C7, at a user without a data directory. The route saves the database without
  \<open>ensureUserDir\<close>; the write of \<open>database.json\<close> fails, and the route answers 500
  instead of succeeding with nothing to remove.
\<close>

theorem C7_delete_without_directory:
  "delete_route bare_fs ''alice'' ''abc123'' = (Failure 500 (error_message ENOENT), bare_fs)"
  by (simp add: delete_route_def saveUserDatabase_def write_database_json_def user_dir_at_def
      bare_fs_def Let_def getUserDir_def basename_def name_ok_def utf8_length_def)

section \<open>Share links\<close>

text \<open>
  Claim C4, at a note of the older layout in a store without a \<open>notes\<close> directory.
  Bob asks for a share link of \<open>old1\<close>: the index is saved with the new share
  identifier, the write of the content file fails, and the route answers 500 before the
  registry entry is made. Bob asks again: the note now carries a share identifier, the
  route answers with that token and a link, and the token does not resolve.
\<close>

theorem C4_share_without_entry:
  "fst (share_route share_token ''2024-01-03T00:00:00.000Z'' ''2024-01-03T00:00:00.001Z''
          ''http://localhost:2452'' legacy_fs ''bob'' ''old1'')
     = Failure 500 (error_message ENOENT)
   \<and> fst (share_route ''ffffffffffffffffffffffffffffffff'' ''2024-01-04T00:00:00.000Z''
         ''2024-01-04T00:00:00.001Z'' ''http://localhost:2452''
         (snd (share_route share_token ''2024-01-03T00:00:00.000Z'' ''2024-01-03T00:00:00.001Z''
                 ''http://localhost:2452'' legacy_fs ''bob'' ''old1'')) ''bob'' ''old1'')
     = Success (''http://localhost:2452/shared/'' @ share_token, share_token)
   \<and> resolve_share
         (snd (share_route ''ffffffffffffffffffffffffffffffff'' ''2024-01-04T00:00:00.000Z''
            ''2024-01-04T00:00:00.001Z'' ''http://localhost:2452''
            (snd (share_route share_token ''2024-01-03T00:00:00.000Z'' ''2024-01-03T00:00:00.001Z''
                    ''http://localhost:2452'' legacy_fs ''bob'' ''old1'')) ''bob'' ''old1''))
         share_token
     = Inl ENOENT"
  by code_simp

section \<open>Deleting a shared note\<close>





section \<open>Saving an existing note\<close>

text \<open>
  Claim C10. When a note can be read and the save route succeeds for it, the note read
  back has the \<open>createdAt\<close> and the \<open>shareId\<close> of the existing note; when the request
  asks for protection and carries no password, it has the existing password hash; its
  content is that of the request. For an identifier other than \<open>__proto__\<close>, and for
  that one too when the index has an own entry of the name, the title, the tags, the
  protection flag and \<open>updatedAt\<close> are those of the request and of the clock, and the
  groups are those of the request, or the existing ones when the request carries none.
\<close>

theorem C10_save_preserves:
  assumes "readNoteData s userId noteId = Inr existing"
    and "save_route bcrypt_hash now1 now2 s userId noteId body = (Success (), s')"
  shows "\<exists>d. readNoteData s' userId noteId = Inr d
           \<and> createdAt d = createdAt existing
           \<and> shareId d = shareId existing
           \<and> (or_else (b_isPasswordProtected body) False \<and> \<not> truthy (b_password body) \<longrightarrow>
                 password d = (if truthy (password existing) then password existing else None))
           \<and> markdown d = Some (str_or (b_markdown body) [])
           \<and> (noteId \<noteq> ''__proto__''
                  \<or> map_of (db_notes (loadUserDatabase s userId)) noteId \<noteq> None \<longrightarrow>
                 title d = Some (str_or (b_title body) ''Untitled'')
                 \<and> tags d = Some (or_else (b_tags body) [])
                 \<and> groups d = Some (case b_groups body of
                                       None \<Rightarrow> or_else (groups existing) [] | Some g \<Rightarrow> g)
                 \<and> isPasswordProtected d = Some (or_else (b_isPasswordProtected body) False)
                 \<and> updatedAt d = Some now2)"
proof -
  let ?s0 = "ensureUserDir_steps s userId"
  let ?data = "save_data bcrypt_hash now1 now2 body (Inr existing)"
  let ?own = "noteId \<noteq> ''__proto__'' \<or> map_of (db_notes (loadUserDatabase ?s0 userId)) noteId \<noteq> None"
  let ?d = "meta.extend (if ?own then meta.truncate ?data else no_metadata)
              (note_data.fields (Some (str_or (markdown ?data) [])))"
  from save_route_form[OF assms(2)] have ok: "name_ok (getUserDir userId)"
    and w0: "writeNoteData ?s0 userId noteId
               (save_data bcrypt_hash now1 now2 body (readNoteData ?s0 userId noteId)) = Returned () s'"
    by simp_all
  have r0: "readNoteData ?s0 userId noteId = Inr existing"
    by (simp add: readNoteData_ensureUserDir_steps[OF ok] assms(1))
  from w0 have w: "writeNoteData ?s0 userId noteId ?data = Returned () s'"
    by (simp only: r0)
  have l0: "loadUserDatabase ?s0 userId = loadUserDatabase s userId"
    by (rule loadUserDatabase_ensureUserDir_steps[OF ok])
  have rd: "readNoteData s' userId noteId = Inr ?d"
    by (rule writeNoteData_read[OF w])
  have md: "markdown ?d = Some (str_or (b_markdown body) [])"
    by (simp add: save_data_def Let_def meta.defs note_data.defs)
  have frame: "createdAt ?d = createdAt existing \<and> shareId ?d = shareId existing
      \<and> (or_else (b_isPasswordProtected body) False \<and> \<not> truthy (b_password body) \<longrightarrow>
            password ?d = (if truthy (password existing) then password existing else None))"
  proof (cases ?own)
    case True
    then show ?thesis
      by (simp add: save_data_def Let_def meta.defs note_data.defs)
  next
    case False
    then have p: "noteId = ''__proto__''"
      and q: "map_of (db_notes (loadUserDatabase ?s0 userId)) ''__proto__'' = None"
      by auto
    from r0 p have "readNoteData ?s0 userId ''__proto__'' = Inr existing" by simp
    from readNoteData_inherited_only[OF this q]
    have e: "createdAt existing = None" "shareId existing = None" "password existing = None"
      by (simp_all add: meta.defs no_metadata_def)
    from False show ?thesis
      by (simp add: e meta.defs note_data.defs no_metadata_def)
  qed
  have repl: "title ?d = Some (str_or (b_title body) ''Untitled'')
      \<and> tags ?d = Some (or_else (b_tags body) [])
      \<and> groups ?d = Some (case b_groups body of
                            None \<Rightarrow> or_else (groups existing) [] | Some g \<Rightarrow> g)
      \<and> isPasswordProtected ?d = Some (or_else (b_isPasswordProtected body) False)
      \<and> updatedAt ?d = Some now2"
    if "noteId \<noteq> ''__proto__'' \<or> map_of (db_notes (loadUserDatabase s userId)) noteId \<noteq> None"
  proof -
    from that have o: ?own by (simp only: l0)
    then show ?thesis
      by (cases "b_groups body") (simp_all add: save_data_def Let_def meta.defs note_data.defs)
  qed
  from rd md frame repl show ?thesis by blast
qed

theorem C10_save_preserves_witness:
  "readNoteData locked_fs ''alice'' ''abc123'' =
     Inr (meta.extend locked (note_data.fields (Some ''- milk'')))
   \<and> fst (save_route (\<lambda>p. p) ''2024-02-01T00:00:00.000Z'' ''2024-02-01T00:00:00.001Z''
            locked_fs ''alice'' ''abc123'' keep_body) = Success ()
   \<and> (\<exists>d. readNoteData
             (snd (save_route (\<lambda>p. p) ''2024-02-01T00:00:00.000Z'' ''2024-02-01T00:00:00.001Z''
                     locked_fs ''alice'' ''abc123'' keep_body)) ''alice'' ''abc123'' = Inr d
          \<and> createdAt d = Some ''2024-01-01T00:00:00.000Z''
          \<and> shareId d = Some share_token
          \<and> password d = Some ''$2b$10$abcdefghijklmnopqrstuv''
          \<and> markdown d = Some ''- eggs''
          \<and> title d = Some ''Shopping''
          \<and> updatedAt d = Some ''2024-02-01T00:00:00.001Z'')"
proof -
  let ?r = "save_route (\<lambda>p. p) ''2024-02-01T00:00:00.000Z'' ''2024-02-01T00:00:00.001Z''
              locked_fs ''alice'' ''abc123'' keep_body"
  have r: "readNoteData locked_fs ''alice'' ''abc123'' =
      Inr (meta.extend locked (note_data.fields (Some ''- milk'')))"
    by code_simp
  have f: "fst ?r = Success ()"
    by code_simp
  then have sv: "?r = (Success (), snd ?r)"
    by (simp add: prod_eq_iff)
  have n: "''abc123'' \<noteq> ''__proto__''" by simp
  have k: "or_else (b_isPasswordProtected keep_body) False" "\<not> truthy (b_password keep_body)"
    "str_or (b_markdown keep_body) [] = ''- eggs''" "str_or (b_title keep_body) ''Untitled'' = ''Shopping''"
    by (simp_all add: keep_body_def)
  have e: "createdAt (meta.extend locked (note_data.fields (Some ''- milk''))) = Some ''2024-01-01T00:00:00.000Z''"
    "shareId (meta.extend locked (note_data.fields (Some ''- milk''))) = Some share_token"
    "password (meta.extend locked (note_data.fields (Some ''- milk''))) = Some ''$2b$10$abcdefghijklmnopqrstuv''"
    by (simp_all add: locked_def groceries_def meta.defs note_data.defs)
  from C10_save_preserves [OF r sv] n k e r f show ?thesis
    by auto
qed

section \<open>Importing a backup\<close>

text \<open>
  Claim C3, at a backup whose account and whose note are named after properties of
  every object. Neither exists locally. \<open>existingUsers['constructor']\<close> and
  \<open>existingDb.notes['toString']\<close> are functions, which are truthy, so the import takes
  both for present: it answers with the counts 0 and 0, and afterwards there is no such
  account and no such entry in Alice's index.
\<close>

theorem C3_inherited_names_not_imported:
  "map_of (loadUsers alice_fs) ''constructor'' = None
   \<and> map_of (db_notes (loadUserDatabase alice_fs ''alice'')) ''toString'' = None
   \<and> fst (import_route alice_fs (Parsed inherited_backup)) = Success (0, 0)
   \<and> map_of (loadUsers (snd (import_route alice_fs (Parsed inherited_backup)))) ''constructor'' = None
   \<and> map_of (db_notes (loadUserDatabase (snd (import_route alice_fs (Parsed inherited_backup)))
        ''alice'')) ''toString'' = None"
  by code_simp

end
